theory Spec2Isabelle
  imports Complex_Main "HOL-Library.Multiset"
begin

section \<open>Data model (src/types/index.ts)\<close>

text \<open>
  The TypeScript type \<^verbatim>\<open>number\<close> is modelled by the rationals: every finite
  double is a rational, and the order service only adds, subtracts, multiplies and
  compares numbers. Rounding, NaN and the infinities are outside the model.

  A timestamp is an ISO string in the source (\<^verbatim>\<open>new Date().toISOString()\<close>) that is
  only ever compared through \<^verbatim>\<open>new Date(s).getTime()\<close>; it is represented by that
  millisecond count.
\<close>

type_synonym number = rat
type_synonym timestamp = int

record CustomerProfile =
  id :: number
  name :: string
  color :: "number list"
  email :: string
  pincode :: string
  location_name :: string
  type :: string
  profile_pic :: "string option"
  gst :: string

record Customer =
  id :: number
  customer :: number
  customer_profile :: CustomerProfile

record SKU =
  id :: number
  selling_price :: number
  max_retail_price :: number
  amount :: number
  unit :: string
  quantity_in_inventory :: number
  product :: number

record Product =
  id :: number
  display_id :: number
  owner :: number
  name :: string
  category :: string
  characteristics :: string
  features :: string
  brand :: string
  sku :: "SKU list"
  updated_on :: string
  adding_date :: string

record OrderItem =
  sku_id :: number
  price :: number
  quantity :: number
  product_name :: "string option"

record SaleOrderFormData =
  customer_id :: number
  items :: "OrderItem list"
  paid :: bool
  invoice_no :: string
  invoice_date :: string

record SaleOrder =
  id :: number
  customer_id :: number
  customer_name :: string
  items :: "OrderItem list"
  paid :: bool
  invoice_no :: string
  invoice_date :: string
  created_at :: timestamp
  last_modified :: timestamp
  total_price :: number

datatype OrderStatus = Active | Completed

section \<open>The in-memory store and the errors\<close>

text \<open>
  The three module-level arrays of \<^verbatim>\<open>mockData\<close> that the order service reads and
  mutates. Their initial contents are not part of the model: every operation takes the
  store as it is and returns the store as it leaves it.
\<close>

record store =
  mockCustomers :: "Customer list"
  mockProducts :: "Product list"
  mockSaleOrders :: "SaleOrder list"

text \<open>
  \<^verbatim>\<open>throw new Error("Customer not found")\<close> and \<^verbatim>\<open>throw new Error("Order not found")\<close>.
\<close>

datatype error = CustomerNotFound | OrderNotFound

section \<open>Array helpers\<close>

text \<open>
  \<^verbatim>\<open>Array.prototype.findIndex\<close>: the index of the first element satisfying the
  predicate, \<open>None\<close> for the source's \<open>-1\<close>.
\<close>

fun findIndex :: "('a \<Rightarrow> bool) \<Rightarrow> 'a list \<Rightarrow> nat option" where
  "findIndex P [] = None"
| "findIndex P (x # xs) =
     (if P x then Some 0 else map_option Suc (findIndex P xs))"

text \<open>
  \<^verbatim>\<open>Array.prototype.sort(compare)\<close>, which ECMAScript requires to be stable: an
  insertion sort that places an element before the first element it does not compare
  greater than.
\<close>

fun insertBy :: "('a \<Rightarrow> 'a \<Rightarrow> int) \<Rightarrow> 'a \<Rightarrow> 'a list \<Rightarrow> 'a list" where
  "insertBy cmp x [] = [x]"
| "insertBy cmp x (y # ys) =
     (if cmp x y \<le> 0 then x # y # ys else y # insertBy cmp x ys)"

definition sortBy :: "('a \<Rightarrow> 'a \<Rightarrow> int) \<Rightarrow> 'a list \<Rightarrow> 'a list" where
  "sortBy cmp xs = foldr (insertBy cmp) xs []"

section \<open>The order service (src/api/index.ts)\<close>

text \<open>
  Every operation of \<^verbatim>\<open>api\<close> first awaits a fixed delay and then runs its body to
  the end without suspending again, so an operation is modelled by its body: a function
  from the store before the call to the result and the store after it.
\<close>

subsection \<open>getSaleOrders\<close>

definition getSaleOrders :: "OrderStatus \<Rightarrow> store \<Rightarrow> SaleOrder list" where
  "getSaleOrders status st =
     sortBy (\<lambda>a b. last_modified b - last_modified a)
       (filter (\<lambda>order. if status = Completed then SaleOrder.paid order
                          else \<not> SaleOrder.paid order)
          (mockSaleOrders st))"

subsection \<open>Item assembly, total and identifier\<close>

text \<open>
  \<^verbatim>\<open>product?.name || "Unknown Product"\<close>: the fallback is taken when no product was
  found and also when the product's name is the empty string, which is falsy.
\<close>

definition resolveProductName :: "Product list \<Rightarrow> OrderItem \<Rightarrow> string" where
  "resolveProductName products item =
     (case find (\<lambda>p. list_ex (\<lambda>s. SKU.id s = sku_id item) (sku p)) products of
        None \<Rightarrow> ''Unknown Product''
      | Some p \<Rightarrow>
          (if Product.name p = [] then ''Unknown Product'' else Product.name p))"

definition assembleItems :: "Product list \<Rightarrow> OrderItem list \<Rightarrow> OrderItem list" where
  "assembleItems products its =
     map (\<lambda>item. item\<lparr>product_name := Some (resolveProductName products item)\<rparr>) its"

definition totalPrice :: "OrderItem list \<Rightarrow> number" where
  "totalPrice its = foldl (\<lambda>sum item. sum + price item * quantity item) 0 its"

text \<open>\<^verbatim>\<open>Math.max(0, ...mockSaleOrders.map(order => order.id)) + 1\<close>\<close>

definition nextId :: "SaleOrder list \<Rightarrow> number" where
  "nextId orders = fold max (map SaleOrder.id orders) 0 + 1"

subsection \<open>Inventory side effect of createSaleOrder\<close>

text \<open>The body of the \<^verbatim>\<open>forEach\<close> over the submitted items.\<close>

definition decrementInventory :: "OrderItem \<Rightarrow> Product list \<Rightarrow> Product list" where
  "decrementInventory item products =
     (case findIndex (\<lambda>p. list_ex (\<lambda>s. SKU.id s = sku_id item) (sku p)) products of
        None \<Rightarrow> products
      | Some productIndex \<Rightarrow>
          (let skus = sku (products ! productIndex) in
           case findIndex (\<lambda>s. SKU.id s = sku_id item) skus of
             None \<Rightarrow> products
           | Some skuIndex \<Rightarrow>
               products[productIndex := (products ! productIndex)
                 \<lparr>sku := skus[skuIndex := (skus ! skuIndex)
                    \<lparr>quantity_in_inventory :=
                       quantity_in_inventory (skus ! skuIndex) - quantity item\<rparr>]\<rparr>]))"

definition updateInventory :: "OrderItem list \<Rightarrow> Product list \<Rightarrow> Product list" where
  "updateInventory its products = fold decrementInventory its products"

subsection \<open>createSaleOrder\<close>

text \<open>
  The object literal reads the clock twice, once for \<^verbatim>\<open>created_at\<close> and once for
  \<^verbatim>\<open>last_modified\<close>; the two readings are the first two arguments. An operation
  returns its result together with the store after the call, so that a failing call
  also says what it left behind.
\<close>

definition createSaleOrder ::
  "timestamp \<Rightarrow> timestamp \<Rightarrow> SaleOrderFormData \<Rightarrow> store \<Rightarrow> (error + SaleOrder) \<times> store" where
  "createSaleOrder now1 now2 orderData st =
     (case find (\<lambda>k. CustomerProfile.id (customer_profile k) =
                      SaleOrderFormData.customer_id orderData) (mockCustomers st) of
        None \<Rightarrow> (Inl CustomerNotFound, st)
      | Some c \<Rightarrow>
          (let newOrder =
                 \<lparr>SaleOrder.id = nextId (mockSaleOrders st),
                  SaleOrder.customer_id = SaleOrderFormData.customer_id orderData,
                  customer_name = CustomerProfile.name (customer_profile c),
                  SaleOrder.items =
                    assembleItems (mockProducts st) (SaleOrderFormData.items orderData),
                  SaleOrder.paid = SaleOrderFormData.paid orderData,
                  SaleOrder.invoice_no = SaleOrderFormData.invoice_no orderData,
                  SaleOrder.invoice_date = SaleOrderFormData.invoice_date orderData,
                  created_at = now1,
                  last_modified = now2,
                  total_price = totalPrice (SaleOrderFormData.items orderData)\<rparr>
           in (Inr newOrder,
               st\<lparr>mockSaleOrders := mockSaleOrders st @ [newOrder],
                  mockProducts :=
                    updateInventory (SaleOrderFormData.items orderData) (mockProducts st)\<rparr>)))"

subsection \<open>updateSaleOrder\<close>

definition updateSaleOrder ::
  "timestamp \<Rightarrow> number \<Rightarrow> SaleOrderFormData \<Rightarrow> store \<Rightarrow> (error + SaleOrder) \<times> store" where
  "updateSaleOrder now i orderData st =
     (case findIndex (\<lambda>order. SaleOrder.id order = i) (mockSaleOrders st) of
        None \<Rightarrow> (Inl OrderNotFound, st)
      | Some orderIndex \<Rightarrow>
          (case find (\<lambda>k. CustomerProfile.id (customer_profile k) =
                           SaleOrderFormData.customer_id orderData) (mockCustomers st) of
             None \<Rightarrow> (Inl CustomerNotFound, st)
           | Some c \<Rightarrow>
               (let updatedOrder = (mockSaleOrders st ! orderIndex)
                      \<lparr>SaleOrder.customer_id := SaleOrderFormData.customer_id orderData,
                       customer_name := CustomerProfile.name (customer_profile c),
                       SaleOrder.items :=
                         assembleItems (mockProducts st) (SaleOrderFormData.items orderData),
                       SaleOrder.paid := SaleOrderFormData.paid orderData,
                       SaleOrder.invoice_no := SaleOrderFormData.invoice_no orderData,
                       SaleOrder.invoice_date := SaleOrderFormData.invoice_date orderData,
                       last_modified := now,
                       total_price := totalPrice (SaleOrderFormData.items orderData)\<rparr>
                in (Inr updatedOrder,
                    st\<lparr>mockSaleOrders := (mockSaleOrders st)[orderIndex := updatedOrder]\<rparr>))))"

subsection \<open>markOrderAsPaid\<close>

definition markOrderAsPaid :: "timestamp \<Rightarrow> number \<Rightarrow> store \<Rightarrow> (error + SaleOrder) \<times> store" where
  "markOrderAsPaid now i st =
     (case findIndex (\<lambda>order. SaleOrder.id order = i) (mockSaleOrders st) of
        None \<Rightarrow> (Inl OrderNotFound, st)
      | Some orderIndex \<Rightarrow>
          (let paidOrder = (mockSaleOrders st ! orderIndex)
                 \<lparr>SaleOrder.paid := True, last_modified := now\<rparr>
           in (Inr paidOrder,
               st\<lparr>mockSaleOrders := (mockSaleOrders st)[orderIndex := paidOrder]\<rparr>)))"

section \<open>Notions used to state the properties\<close>






definition customerKnown :: "store \<Rightarrow> number \<Rightarrow> bool" where
  "customerKnown st cid =
     list_ex (\<lambda>k. CustomerProfile.id (customer_profile k) = cid) (mockCustomers st)"

definition orderKnown :: "store \<Rightarrow> number \<Rightarrow> bool" where
  "orderKnown st i = list_ex (\<lambda>order. SaleOrder.id order = i) (mockSaleOrders st)"

section \<open>A worked scenario\<close>

text \<open>
  The catalog has the product Widget (id 1) with SKU 10, price 100 and 50 in stock; the
  one customer has record id 7, account 70 and profile id 1. An order of three Widgets is
  created, then updated to five at 90, then marked as paid.
\<close>

definition widgetSku :: SKU where
  "widgetSku = \<lparr>SKU.id = 10, selling_price = 100, max_retail_price = 120, amount = 1,
     unit = ''kg'', quantity_in_inventory = 50, product = 1\<rparr>"

definition widget :: Product where
  "widget = \<lparr>Product.id = 1, display_id = 1, owner = 1, Product.name = ''Widget'',
     category = ''Tools'', characteristics = [], features = [], brand = ''Acme'',
     sku = [widgetSku], updated_on = ''2024-01-01'', adding_date = ''2024-01-01''\<rparr>"

definition scenarioCustomer :: Customer where
  "scenarioCustomer = \<lparr>Customer.id = 7, customer = 70,
     customer_profile = \<lparr>CustomerProfile.id = 1, CustomerProfile.name = ''Asha'',
       color = [], email = ''asha@example.org'', pincode = ''560001'',
       location_name = ''Bengaluru'', type = ''C'', profile_pic = None, gst = []\<rparr>\<rparr>"

definition scenarioStore :: store where
  "scenarioStore = \<lparr>mockCustomers = [scenarioCustomer], mockProducts = [widget],
     mockSaleOrders = []\<rparr>"

definition threeWidgets :: SaleOrderFormData where
  "threeWidgets = \<lparr>SaleOrderFormData.customer_id = 1,
     SaleOrderFormData.items =
       [\<lparr>sku_id = 10, price = 100, quantity = 3, product_name = None\<rparr>],
     SaleOrderFormData.paid = False, SaleOrderFormData.invoice_no = ''INV-1'',
     SaleOrderFormData.invoice_date = ''2024-01-01''\<rparr>"

definition fiveWidgets :: SaleOrderFormData where
  "fiveWidgets = \<lparr>SaleOrderFormData.customer_id = 1,
     SaleOrderFormData.items =
       [\<lparr>sku_id = 10, price = 90, quantity = 5, product_name = None\<rparr>],
     SaleOrderFormData.paid = False, SaleOrderFormData.invoice_no = ''INV-1'',
     SaleOrderFormData.invoice_date = ''2024-01-02''\<rparr>"

definition createdOrder :: "timestamp \<Rightarrow> SaleOrder" where
  "createdOrder now2 = \<lparr>SaleOrder.id = 1, SaleOrder.customer_id = 1, customer_name = ''Asha'',
     SaleOrder.items =
       [\<lparr>sku_id = 10, price = 100, quantity = 3, product_name = Some ''Widget''\<rparr>],
     SaleOrder.paid = False, SaleOrder.invoice_no = ''INV-1'',
     SaleOrder.invoice_date = ''2024-01-01'', created_at = 1000, last_modified = now2,
     total_price = 300\<rparr>"

definition storeAfterCreate :: "timestamp \<Rightarrow> store" where
  "storeAfterCreate now2 = \<lparr>mockCustomers = [scenarioCustomer],
     mockProducts = [widget\<lparr>sku := [widgetSku\<lparr>quantity_in_inventory := 47\<rparr>]\<rparr>],
     mockSaleOrders = [createdOrder now2]\<rparr>"

definition updatedOrder :: SaleOrder where
  "updatedOrder = \<lparr>SaleOrder.id = 1, SaleOrder.customer_id = 1, customer_name = ''Asha'',
     SaleOrder.items =
       [\<lparr>sku_id = 10, price = 90, quantity = 5, product_name = Some ''Widget''\<rparr>],
     SaleOrder.paid = False, SaleOrder.invoice_no = ''INV-1'',
     SaleOrder.invoice_date = ''2024-01-02'', created_at = 1000, last_modified = 2000,
     total_price = 450\<rparr>"

definition storeAfterUpdate :: store where
  "storeAfterUpdate = (storeAfterCreate 1000)\<lparr>mockSaleOrders := [updatedOrder]\<rparr>"

definition paidOrder :: SaleOrder where
  "paidOrder = updatedOrder\<lparr>SaleOrder.paid := True, last_modified := 3000\<rparr>"

definition storeAfterPaid :: store where
  "storeAfterPaid = (storeAfterCreate 1000)\<lparr>mockSaleOrders := [paidOrder]\<rparr>"

text \<open>
  Form data whose \<open>customer_id\<close> is 7: the record id of the scenario's customer, and
  the profile id of nobody.
\<close>

definition strangerData :: SaleOrderFormData where
  "strangerData = threeWidgets\<lparr>SaleOrderFormData.customer_id := 7\<rparr>"

text \<open>
  A store for the listing: four orders, in insertion order an unpaid one last modified
  at 5, an unpaid one at 9, a paid one at 7 and another unpaid one at 5.
\<close>

definition listedOrder :: "number \<Rightarrow> bool \<Rightarrow> timestamp \<Rightarrow> SaleOrder" where
  "listedOrder i p t = (createdOrder t)\<lparr>SaleOrder.id := i, SaleOrder.paid := p\<rparr>"

definition listingStore :: store where
  "listingStore = scenarioStore\<lparr>mockSaleOrders :=
     [listedOrder 1 False 5, listedOrder 2 False 9, listedOrder 3 True 7,
      listedOrder 4 False 5]\<rparr>"




lemmas scenario_defs =
  widgetSku_def widget_def scenarioCustomer_def scenarioStore_def threeWidgets_def
  fiveWidgets_def createdOrder_def storeAfterCreate_def updatedOrder_def
  storeAfterUpdate_def paidOrder_def storeAfterPaid_def

lemmas service_defs =
  createSaleOrder_def updateSaleOrder_def markOrderAsPaid_def nextId_def totalPrice_def
  assembleItems_def resolveProductName_def updateInventory_def decrementInventory_def
  Let_def

section \<open>The scenario, evaluated\<close>


lemma scenario_update:
  "updateSaleOrder 2000 1 fiveWidgets (storeAfterCreate 1000) =
     (Inr updatedOrder, storeAfterUpdate)"
  by (simp add: scenario_defs service_defs)


section \<open>Facts about the array helpers\<close>

lemma findIndex_Some_iff:
  "findIndex P xs = Some k \<longleftrightarrow> k < length xs \<and> P (xs ! k) \<and> (\<forall>j<k. \<not> P (xs ! j))"
proof (induction xs arbitrary: k)
  case Nil
  then show ?case by simp
next
  case (Cons x xs)
  show ?case
  proof (cases "P x")
    case True
    then show ?thesis by (cases k) auto
  next
    case False
    show ?thesis
    proof (cases k)
      case 0
      with False show ?thesis by simp
    next
      case (Suc m)
      have "(\<forall>j<Suc m. \<not> P ((x # xs) ! j)) \<longleftrightarrow> (\<forall>j<m. \<not> P (xs ! j))"
        using False by (auto simp: less_Suc_eq_0_disj)
      with False Suc Cons.IH [of m] show ?thesis by auto
    qed
  qed
qed

lemma findIndex_None_iff: "findIndex P xs = None \<longleftrightarrow> (\<forall>x\<in>set xs. \<not> P x)"
  by (induction xs) auto

lemma find_None_set: "find P xs = None \<longleftrightarrow> (\<forall>x\<in>set xs. \<not> P x)"
  by (induction xs) auto




section \<open>What a successful call returns and stores\<close>




section \<open>Order totals\<close>



lemma scenario_stranger:
  "createSaleOrder now1 now2 strangerData (storeAfterCreate 1000) =
     (Inl CustomerNotFound, storeAfterCreate 1000)"
  "updateSaleOrder now 1 strangerData (storeAfterCreate 1000) =
     (Inl CustomerNotFound, storeAfterCreate 1000)"
  "updateSaleOrder now 2 fiveWidgets (storeAfterCreate 1000) =
     (Inl OrderNotFound, storeAfterCreate 1000)"
  "markOrderAsPaid now 2 (storeAfterCreate 1000) =
     (Inl OrderNotFound, storeAfterCreate 1000)"
  by (simp_all add: strangerData_def scenario_defs service_defs)

section \<open>Failures\<close>

lemma orderKnown_findIndex:
  "orderKnown st i \<longleftrightarrow> findIndex (\<lambda>order. SaleOrder.id order = i) (mockSaleOrders st) \<noteq> None"
  by (simp add: orderKnown_def findIndex_None_iff list_ex_iff)

lemma customerKnown_find:
  "customerKnown st cid \<longleftrightarrow>
     find (\<lambda>k. CustomerProfile.id (customer_profile k) = cid) (mockCustomers st) \<noteq> None"
  by (simp add: customerKnown_def find_None_set list_ex_iff)

text \<open>
  C6. \<open>updateSaleOrder\<close> fails with \<open>OrderNotFound\<close> exactly when no stored order has
  the given id, and so does \<open>markOrderAsPaid\<close>; \<open>createSaleOrder\<close> fails with
  \<open>CustomerNotFound\<close> exactly when no customer matches the given \<open>customer_id\<close>, and
  \<open>updateSaleOrder\<close> does so exactly when the order id exists and no customer matches.
  No other failure occurs.
\<close>

theorem not_found_failures:
  "(fst (updateSaleOrder now i orderData st) = Inl OrderNotFound \<longleftrightarrow> \<not> orderKnown st i)
 \<and> (fst (markOrderAsPaid now i st) = Inl OrderNotFound \<longleftrightarrow> \<not> orderKnown st i)
 \<and> (fst (createSaleOrder now1 now2 orderData st) = Inl CustomerNotFound \<longleftrightarrow>
       \<not> customerKnown st (SaleOrderFormData.customer_id orderData))
 \<and> (fst (updateSaleOrder now i orderData st) = Inl CustomerNotFound \<longleftrightarrow>
       orderKnown st i \<and> \<not> customerKnown st (SaleOrderFormData.customer_id orderData))
 \<and> fst (createSaleOrder now1 now2 orderData st) \<noteq> Inl OrderNotFound
 \<and> fst (markOrderAsPaid now i st) \<noteq> Inl CustomerNotFound"
proof (intro conjI)
  show "fst (updateSaleOrder now i orderData st) = Inl OrderNotFound \<longleftrightarrow> \<not> orderKnown st i"
    by (simp add: updateSaleOrder_def orderKnown_findIndex Let_def split: option.splits)
  show "fst (markOrderAsPaid now i st) = Inl OrderNotFound \<longleftrightarrow> \<not> orderKnown st i"
    by (simp add: markOrderAsPaid_def orderKnown_findIndex Let_def split: option.splits)
  show "fst (createSaleOrder now1 now2 orderData st) = Inl CustomerNotFound \<longleftrightarrow>
          \<not> customerKnown st (SaleOrderFormData.customer_id orderData)"
    by (simp add: createSaleOrder_def customerKnown_find Let_def split: option.splits)
  show "fst (updateSaleOrder now i orderData st) = Inl CustomerNotFound \<longleftrightarrow>
          orderKnown st i \<and> \<not> customerKnown st (SaleOrderFormData.customer_id orderData)"
    by (simp add: updateSaleOrder_def orderKnown_findIndex customerKnown_find Let_def
        split: option.splits)
  show "fst (createSaleOrder now1 now2 orderData st) \<noteq> Inl OrderNotFound"
    by (simp add: createSaleOrder_def Let_def split: option.splits)
  show "fst (markOrderAsPaid now i st) \<noteq> Inl CustomerNotFound"
    by (simp add: markOrderAsPaid_def Let_def split: option.splits)
qed

theorem not_found_failures_witness:
  "fst (updateSaleOrder 2000 2 fiveWidgets (storeAfterCreate 1000)) = Inl OrderNotFound
 \<and> \<not> orderKnown (storeAfterCreate 1000) 2
 \<and> fst (markOrderAsPaid 3000 2 (storeAfterCreate 1000)) = Inl OrderNotFound
 \<and> fst (createSaleOrder 1000 1000 strangerData (storeAfterCreate 1000)) = Inl CustomerNotFound
 \<and> \<not> customerKnown (storeAfterCreate 1000) 7
 \<and> fst (updateSaleOrder 2000 1 strangerData (storeAfterCreate 1000)) = Inl CustomerNotFound
 \<and> orderKnown (storeAfterCreate 1000) 1
 \<and> customerKnown (storeAfterCreate 1000) 1
 \<and> fst (updateSaleOrder 2000 1 fiveWidgets (storeAfterCreate 1000)) = Inr updatedOrder"
proof -
  have k: "\<not> orderKnown (storeAfterCreate 1000) 2" "orderKnown (storeAfterCreate 1000) 1"
    "\<not> customerKnown (storeAfterCreate 1000) 7" "customerKnown (storeAfterCreate 1000) 1"
    by (simp_all add: orderKnown_def customerKnown_def scenario_defs)
  have d: "SaleOrderFormData.customer_id strangerData = 7"
    by (simp add: strangerData_def)
  from not_found_failures [of 2000 2 fiveWidgets "storeAfterCreate 1000" 1000 1000] k
  have "fst (updateSaleOrder 2000 2 fiveWidgets (storeAfterCreate 1000)) = Inl OrderNotFound"
    by blast
  moreover
  from not_found_failures [of 3000 2 strangerData "storeAfterCreate 1000" 1000 1000] k d
  have "fst (markOrderAsPaid 3000 2 (storeAfterCreate 1000)) = Inl OrderNotFound
      \<and> fst (createSaleOrder 1000 1000 strangerData (storeAfterCreate 1000)) = Inl CustomerNotFound"
    by simp
  moreover
  from not_found_failures [of 2000 1 strangerData "storeAfterCreate 1000" 1000 1000] k d
  have "fst (updateSaleOrder 2000 1 strangerData (storeAfterCreate 1000)) = Inl CustomerNotFound"
    by simp
  ultimately show ?thesis
    using k scenario_update by simp
qed

text \<open>
  C8. A call of \<open>createSaleOrder\<close>, \<open>updateSaleOrder\<close> or \<open>markOrderAsPaid\<close> that
  fails leaves the whole store (customers, orders, and the catalog with its inventory
  quantities) exactly as it was before the call.
\<close>

theorem failure_leaves_store_unchanged:
  "(isl (fst (createSaleOrder now1 now2 orderData st)) \<longrightarrow>
      snd (createSaleOrder now1 now2 orderData st) = st)
 \<and> (isl (fst (updateSaleOrder now i orderData st)) \<longrightarrow>
      snd (updateSaleOrder now i orderData st) = st)
 \<and> (isl (fst (markOrderAsPaid now i st)) \<longrightarrow> snd (markOrderAsPaid now i st) = st)"
  by (simp add: createSaleOrder_def updateSaleOrder_def markOrderAsPaid_def Let_def
      split: option.splits)

theorem failure_leaves_store_unchanged_witness:
  "isl (fst (createSaleOrder 1000 1000 strangerData (storeAfterCreate 1000)))
 \<and> snd (createSaleOrder 1000 1000 strangerData (storeAfterCreate 1000)) = storeAfterCreate 1000
 \<and> isl (fst (updateSaleOrder 2000 1 strangerData (storeAfterCreate 1000)))
 \<and> snd (updateSaleOrder 2000 1 strangerData (storeAfterCreate 1000)) = storeAfterCreate 1000
 \<and> isl (fst (updateSaleOrder 2000 2 fiveWidgets (storeAfterCreate 1000)))
 \<and> snd (updateSaleOrder 2000 2 fiveWidgets (storeAfterCreate 1000)) = storeAfterCreate 1000
 \<and> isl (fst (markOrderAsPaid 3000 2 (storeAfterCreate 1000)))
 \<and> snd (markOrderAsPaid 3000 2 (storeAfterCreate 1000)) = storeAfterCreate 1000"
proof -
  have f: "isl (fst (createSaleOrder 1000 1000 strangerData (storeAfterCreate 1000)))"
    "isl (fst (updateSaleOrder 2000 1 strangerData (storeAfterCreate 1000)))"
    "isl (fst (updateSaleOrder 2000 2 fiveWidgets (storeAfterCreate 1000)))"
    "isl (fst (markOrderAsPaid 3000 2 (storeAfterCreate 1000)))"
    by (simp_all add: scenario_stranger)
  from f failure_leaves_store_unchanged
         [of 1000 1000 strangerData "storeAfterCreate 1000" 2000 1]
       failure_leaves_store_unchanged
         [of 1000 1000 fiveWidgets "storeAfterCreate 1000" 2000 2]
       failure_leaves_store_unchanged
         [of 1000 1000 fiveWidgets "storeAfterCreate 1000" 3000 2]
  show ?thesis by blast
qed

section \<open>Timestamps\<close>




section \<open>Customer resolution\<close>


lemma find_through_map:
  "find (\<lambda>k. P (f k)) xs = None \<longleftrightarrow> find P (map f xs) = None"
  "find (\<lambda>k. P (f k)) xs = Some x \<Longrightarrow> find P (map f xs) = Some (f x)"
  by (induction xs) (auto split: if_splits)




section \<open>Listing orders by status\<close>

lemma insertBy_descending:
  "insertBy (\<lambda>a b. f b - f a) x ys = insort_key (\<lambda>a. - f a) x ys" for f :: "'a \<Rightarrow> int"
  by (induction ys) simp_all

lemma sortBy_descending:
  "sortBy (\<lambda>a b. f b - f a) xs = sort_key (\<lambda>a. - f a) xs" for f :: "'a \<Rightarrow> int"
  by (induction xs) (simp_all add: sortBy_def sort_key_def insertBy_descending)

lemma getSaleOrders_sort_key:
  "getSaleOrders status st =
     sort_key (\<lambda>order. - last_modified order)
       (filter (\<lambda>order. SaleOrder.paid order = (status = Completed)) (mockSaleOrders st))"
proof -
  have e: "filter (\<lambda>order. if status = Completed then SaleOrder.paid order
                            else \<not> SaleOrder.paid order) (mockSaleOrders st) =
           filter (\<lambda>order. SaleOrder.paid order = (status = Completed)) (mockSaleOrders st)"
    by (rule filter_cong) auto
  show ?thesis
    unfolding getSaleOrders_def sortBy_descending e ..
qed

lemma sorted_wrt_descending:
  "sorted (map (\<lambda>a. - f a) xs) \<Longrightarrow> sorted_wrt (\<lambda>a b. f b \<le> f a) xs" for f :: "'a \<Rightarrow> int"
  by (induction xs) auto

lemma mset_filter_partition:
  "mset (filter (\<lambda>x. \<not> P x) xs) + mset (filter P xs) = mset xs"
  by (induction xs) auto

text \<open>
  C2. \<open>getSaleOrders\<close> returns, as a multiset, exactly the stored orders with
  \<open>paid = False\<close> for \<open>Active\<close> and exactly those with \<open>paid = True\<close> for
  \<open>Completed\<close>; the result is ordered by \<open>last_modified\<close> descending; the orders that
  share a \<open>last_modified\<close> value appear in the order in which the store holds them; and
  the two results partition the store: together they are all the stored orders, and no
  order is in both.
\<close>

theorem getSaleOrders_filters_and_sorts:
  "mset (getSaleOrders status st) =
     mset (filter (\<lambda>order. SaleOrder.paid order = (status = Completed)) (mockSaleOrders st))
 \<and> sorted_wrt (\<lambda>a b. last_modified b \<le> last_modified a) (getSaleOrders status st)
 \<and> (\<forall>t. filter (\<lambda>order. last_modified order = t) (getSaleOrders status st) =
          filter (\<lambda>order. last_modified order = t)
            (filter (\<lambda>order. SaleOrder.paid order = (status = Completed)) (mockSaleOrders st)))
 \<and> mset (getSaleOrders Active st) + mset (getSaleOrders Completed st) = mset (mockSaleOrders st)
 \<and> set (getSaleOrders Active st) \<inter> set (getSaleOrders Completed st) = {}"
proof (intro conjI allI)
  let ?sel = "\<lambda>s. filter (\<lambda>order. SaleOrder.paid order = (s = Completed)) (mockSaleOrders st)"
  show "mset (getSaleOrders status st) = mset (?sel status)"
    by (simp add: getSaleOrders_sort_key)
  have "sorted (map (\<lambda>order. - last_modified order) (getSaleOrders status st))"
    by (simp add: getSaleOrders_sort_key)
  then show "sorted_wrt (\<lambda>a b. last_modified b \<le> last_modified a) (getSaleOrders status st)"
    by (rule sorted_wrt_descending)
  show "filter (\<lambda>order. last_modified order = t) (getSaleOrders status st) =
          filter (\<lambda>order. last_modified order = t) (?sel status)" for t
  proof -
    have h: "(\<lambda>order. last_modified order = t) = (\<lambda>order. - last_modified order = - t)"
      by auto
    show ?thesis
      unfolding getSaleOrders_sort_key h by (rule sort_key_stable)
  qed
  show "mset (getSaleOrders Active st) + mset (getSaleOrders Completed st) =
          mset (mockSaleOrders st)"
    using mset_filter_partition [of SaleOrder.paid "mockSaleOrders st"]
    by (simp add: getSaleOrders_sort_key)
  show "set (getSaleOrders Active st) \<inter> set (getSaleOrders Completed st) = {}"
    by (auto simp: getSaleOrders_sort_key)
qed

lemma listing_active:
  "getSaleOrders Active listingStore =
     [listedOrder 2 False 9, listedOrder 1 False 5, listedOrder 4 False 5]"
  "getSaleOrders Completed listingStore = [listedOrder 3 True 7]"
  by (simp_all add: getSaleOrders_def sortBy_def listingStore_def listedOrder_def
      createdOrder_def)

theorem getSaleOrders_filters_and_sorts_witness:
  "getSaleOrders Active listingStore =
     [listedOrder 2 False 9, listedOrder 1 False 5, listedOrder 4 False 5]
 \<and> getSaleOrders Completed listingStore = [listedOrder 3 True 7]
 \<and> sorted_wrt (\<lambda>a b. last_modified b \<le> last_modified a)
      [listedOrder 2 False 9, listedOrder 1 False 5, listedOrder 4 False 5]
 \<and> filter (\<lambda>order. last_modified order = 5) (getSaleOrders Active listingStore) =
      filter (\<lambda>order. last_modified order = 5)
        (filter (\<lambda>order. \<not> SaleOrder.paid order) (mockSaleOrders listingStore))
 \<and> mset [listedOrder 2 False 9, listedOrder 1 False 5, listedOrder 4 False 5] +
      mset [listedOrder 3 True 7] = mset (mockSaleOrders listingStore)"
proof -
  note t = getSaleOrders_filters_and_sorts [of Active listingStore]
  from t have a: "sorted_wrt (\<lambda>a b. last_modified b \<le> last_modified a)
      (getSaleOrders Active listingStore)"
    by blast
  from t have b: "filter (\<lambda>order. last_modified order = 5) (getSaleOrders Active listingStore) =
      filter (\<lambda>order. last_modified order = 5)
        (filter (\<lambda>order. SaleOrder.paid order = (Active = Completed))
           (mockSaleOrders listingStore))"
    by blast
  from t have c: "mset (getSaleOrders Active listingStore) +
      mset (getSaleOrders Completed listingStore) = mset (mockSaleOrders listingStore)"
    by blast
  show ?thesis
    using a b c by (simp add: listing_active)
qed

section \<open>Marking an order as paid\<close>

text \<open>
  Identifiers are never rewritten: an update and a mark-paid keep the id at every
  position of the order store. Where the ids are unique, every stored order is the
  first one with its id.
\<close>

lemma identifiers_kept:
  "map SaleOrder.id (mockSaleOrders (snd (updateSaleOrder now i orderData st))) =
     map SaleOrder.id (mockSaleOrders st)"
  "map SaleOrder.id (mockSaleOrders (snd (markOrderAsPaid now i st))) =
     map SaleOrder.id (mockSaleOrders st)"
  by (auto simp: updateSaleOrder_def markOrderAsPaid_def Let_def map_update
      findIndex_Some_iff list_update_same_conv split: option.splits)

lemma unique_ids_first:
  assumes "distinct (map SaleOrder.id orders)" "k < length orders"
  shows "\<forall>j<k. SaleOrder.id (orders ! j) \<noteq> SaleOrder.id (orders ! k)"
proof (intro allI impI)
  fix j
  assume "j < k"
  with assms(2) have b: "j < length (map SaleOrder.id orders)"
    "k < length (map SaleOrder.id orders)" "j \<noteq> k"
    by simp_all
  from nth_eq_iff_index_eq [OF assms(1) b(1,2)] b(3)
  have "map SaleOrder.id orders ! j \<noteq> map SaleOrder.id orders ! k"
    by simp
  with b(1,2) show "SaleOrder.id (orders ! j) \<noteq> SaleOrder.id (orders ! k)"
    by simp
qed



section \<open>Order identifiers\<close>











section \<open>Resolving product names\<close>







section \<open>Inventory\<close>

















end
